theory Spec2Isabelle
  imports Main "HOL-Library.Char_ord"
begin

section \<open>Cloud Spanner adapter of TensorBoard: schema DDL, SQL classifier, cursor\<close>

text \<open>
  A shallow embedding of \<^verbatim>\<open>tensorboard/platforms/gcp/spanner.py\<close> and of the
  schema classes of \<^verbatim>\<open>tensorboard/schema.py\<close> it uses. Python exceptions are
  values of \<open>py_error\<close>; a function that can raise returns \<open>py_error + 'a\<close>.
  Strings are lists of 8-bit characters, so the text covers code points below 256.
  \<open>OutsideModel\<close> is no Python exception: it marks the one place where the embedding
  stops, a replacement field of \<^verbatim>\<open>str.format\<close> other than \<^verbatim>\<open>{}\<close>.
\<close>

datatype py_error =
    ValueError string
  | IndexError
  | KeyError
  | UnboundLocalError
  | BackendError string
  | OutsideModel string

subsection \<open>Python list indexing and slicing\<close>

text \<open>
  \<^verbatim>\<open>xs[i]\<close>: a negative index counts from the end; out of range raises IndexError.
\<close>

definition py_getitem :: "'a list \<Rightarrow> int \<Rightarrow> py_error + 'a" where
  "py_getitem xs i =
     (let len = int (length xs);
          k = (if i < 0 then i + len else i)
      in if k < 0 \<or> len \<le> k then Inl IndexError else Inr (xs ! nat k))"

text \<open>
  \<^verbatim>\<open>xs[i:j]\<close>: each bound is shifted by the length when negative and then clamped
  to \<open>0 .. len\<close>; the slice is empty when the bounds cross. Slicing never raises.
\<close>

definition slice_bound :: "int \<Rightarrow> int \<Rightarrow> int" where
  "slice_bound len i = (if i < 0 then max 0 (i + len) else min i len)"

definition py_slice :: "'a list \<Rightarrow> int \<Rightarrow> int \<Rightarrow> 'a list" where
  "py_slice xs i j =
     (let len = int (length xs);
          a = slice_bound len i;
          b = slice_bound len j
      in take (nat (b - a)) (drop (nat a) xs))"

subsection \<open>The cursor's state\<close>

text \<open>
  \<^verbatim>\<open>CloudSpannerCursor.__init__\<close> sets \<^verbatim>\<open>database = None\<close>, \<^verbatim>\<open>_results = []\<close>,
  \<^verbatim>\<open>_rindex = 0\<close>, \<^verbatim>\<open>_descriptions = []\<close> and \<^verbatim>\<open>arraysize = 10\<close>. A description
  entry is the list \<^verbatim>\<open>[c, None, None, None, None, None, None]\<close>; the model keeps
  the name \<open>c\<close>. The handle \<^verbatim>\<open>database\<close> is modelled by the id it was made from.
\<close>

record 'r cursor =
  database_id :: string
  instance_id :: string
  database :: "string option"
  results :: "'r list"
  rindex :: int
  descriptions :: "string list"
  arraysize :: int

definition new_cursor :: "string \<Rightarrow> string \<Rightarrow> 'r cursor" where
  "new_cursor db inst =
     \<lparr>database_id = db, instance_id = inst, database = None, results = [],
      rindex = 0, descriptions = [], arraysize = 10\<rparr>"

subsection \<open>fetchone, fetchmany, fetchall\<close>

text \<open>
  \<^verbatim>\<open>fetchone\<close> increments \<^verbatim>\<open>_rindex\<close> before it reads \<^verbatim>\<open>_results[_rindex - 1]\<close>,
  so the increment stays when the read raises. Without a row Python returns None.
\<close>

definition fetchone :: "'r cursor \<Rightarrow> (py_error + 'r option) \<times> 'r cursor" where
  "fetchone c =
     (if rindex c < int (length (results c)) then
        (let c' = c\<lparr>rindex := rindex c + 1\<rparr>
         in case py_getitem (results c') (rindex c' - 1) of
              Inl e \<Rightarrow> (Inl e, c')
            | Inr row \<Rightarrow> (Inr (Some row), c'))
      else (Inr None, c))"

definition fetchmany :: "int option \<Rightarrow> 'r cursor \<Rightarrow> 'r list \<times> 'r cursor" where
  "fetchmany sz c =
     (let start_index = rindex c;
          end_index = (case sz of
                         Some n \<Rightarrow> start_index + n
                       | None \<Rightarrow> int (length (results c)));
          c' = c\<lparr>rindex := end_index\<rparr>
      in (py_slice (results c') start_index end_index, c'))"

definition fetchall :: "'r cursor \<Rightarrow> 'r list \<times> 'r cursor" where
  "fetchall c =
     (let start_index = rindex c;
          end_index = int (length (results c));
          c' = c\<lparr>rindex := end_index\<rparr>
      in (py_slice (results c') start_index end_index, c'))"

definition rowcount :: "'r cursor \<Rightarrow> int" where
  "rowcount c = int (length (results c))"

text \<open>An integer cursor for the examples.\<close>

definition cur :: "int list \<Rightarrow> int \<Rightarrow> int cursor" where
  "cur rows i = \<lparr>database_id = ''d'', instance_id = ''i'', database = None,
                results = rows, rindex = i, descriptions = [], arraysize = 10\<rparr>"

subsection \<open>Iterating the cursor\<close>

text \<open>
  \<^verbatim>\<open>__iter__\<close> is a generator function: calling it runs nothing. The first
  \<^verbatim>\<open>next\<close> reads \<^verbatim>\<open>self._results\<close> and starts a list iterator on it, which holds
  that list and an index. The cursor never changes a list in place (it rebinds
  \<^verbatim>\<open>_results\<close>), so the running generator keeps the rows it started with.
  \<open>None\<close> stands for StopIteration.
\<close>

datatype 'r generator = GenCreated | GenRunning "'r list" nat | GenFinished

definition cursor_iter :: "'r cursor \<Rightarrow> 'r generator" where
  "cursor_iter c = GenCreated"

definition list_iter_next :: "'r list \<Rightarrow> nat \<Rightarrow> 'r option \<times> 'r generator" where
  "list_iter_next rows i =
     (if i < length rows then (Some (rows ! i), GenRunning rows (Suc i))
      else (None, GenFinished))"

fun gen_next :: "'r cursor \<Rightarrow> 'r generator \<Rightarrow> 'r option \<times> 'r generator" where
  "gen_next c GenCreated = list_iter_next (results c) 0"
| "gen_next c (GenRunning rows i) = list_iter_next rows i"
| "gen_next c GenFinished = (None, GenFinished)"

text \<open>
  The rows still to come; it decreases with every row that \<open>gen_next\<close> yields.
\<close>

fun gen_left :: "'r cursor \<Rightarrow> 'r generator \<Rightarrow> nat" where
  "gen_left c GenCreated = length (results c)"
| "gen_left c (GenRunning rows i) = length rows - i"
| "gen_left c GenFinished = 0"

text \<open>
  \<^verbatim>\<open>for row in cursor: out.append(row)\<close>, from a generator in any state: the rows
  collected and the generator as the loop leaves it.
\<close>

function consume :: "'r cursor \<Rightarrow> 'r generator \<Rightarrow> 'r list \<times> 'r generator" where
  "consume c g =
     (case gen_next c g of
        (None, g') \<Rightarrow> ([], g')
      | (Some row, g') \<Rightarrow> (case consume c g' of (rows, g'') \<Rightarrow> (row # rows, g'')))"
  by pat_completeness auto
termination
  apply (relation "measure (\<lambda>(c, g). gen_left c g)")
   apply simp
  subgoal for c g x y
    by (cases g) (auto simp: list_iter_next_def split: if_splits)
  done

declare consume.simps [simp del]

subsection \<open>A caller's sequence of fetch calls\<close>

datatype fetch_call = FetchOne | FetchMany "int option" | FetchAll

datatype 'r fetched = Row "'r option" | Rows "'r list"

definition do_fetch :: "fetch_call \<Rightarrow> 'r cursor \<Rightarrow> (py_error + 'r fetched) \<times> 'r cursor" where
  "do_fetch call c =
     (case call of
        FetchOne \<Rightarrow> (case fetchone c of (r, c') \<Rightarrow> (map_sum id Row r, c'))
      | FetchMany sz \<Rightarrow> (case fetchmany sz c of (rows, c') \<Rightarrow> (Inr (Rows rows), c'))
      | FetchAll \<Rightarrow> (case fetchall c of (rows, c') \<Rightarrow> (Inr (Rows rows), c')))"

text \<open>
  The calls run one after the other on the same cursor; the outcome of each is kept,
  an exception too, as for a caller that catches it and goes on.
\<close>

fun run_fetches :: "fetch_call list \<Rightarrow> 'r cursor \<Rightarrow> (py_error + 'r fetched) list \<times> 'r cursor" where
  "run_fetches [] c = ([], c)"
| "run_fetches (call # calls) c =
     (case do_fetch call c of
        (r, c') \<Rightarrow> (case run_fetches calls c' of (rs, c'') \<Rightarrow> (r # rs, c'')))"

text \<open>The read positions a cursor goes through, the first one included.\<close>

fun positions :: "fetch_call list \<Rightarrow> 'r cursor \<Rightarrow> int list" where
  "positions [] c = [rindex c]"
| "positions (call # calls) c = rindex c # positions calls (snd (do_fetch call c))"

definition nonneg_size :: "fetch_call \<Rightarrow> bool" where
  "nonneg_size call = (case call of FetchMany (Some n) \<Rightarrow> 0 \<le> n | _ \<Rightarrow> True)"

text \<open>The calls that only move forward: \<^verbatim>\<open>fetchone()\<close> and \<^verbatim>\<open>fetchmany(n)\<close> with \<open>n \<ge> 0\<close>.\<close>

definition advancing :: "fetch_call \<Rightarrow> bool" where
  "advancing call =
     (case call of FetchOne \<Rightarrow> True | FetchMany (Some n) \<Rightarrow> 0 \<le> n | _ \<Rightarrow> False)"

definition is_empty_reply :: "(py_error + 'r fetched) \<Rightarrow> bool" where
  "is_empty_reply r = (r = Inr (Row None) \<or> r = Inr (Rows []))"

subsection \<open>Rendering integers and joining strings\<close>

text \<open>\<^verbatim>\<open>'{0}'.format(n)\<close> of an integer: its decimal digits, with a minus sign if negative.\<close>

fun digits10 :: "nat \<Rightarrow> string" where
  "digits10 n =
     (if n < 10 then [''0123456789'' ! n]
      else digits10 (n div 10) @ [''0123456789'' ! (n mod 10)])"

declare digits10.simps [simp del]

definition py_str_int :: "int \<Rightarrow> string" where
  "py_str_int i = (if i < 0 then CHR ''-'' # digits10 (nat (- i)) else digits10 (nat i))"

text \<open>\<^verbatim>\<open>sep.join(xs)\<close>\<close>

fun py_join :: "string \<Rightarrow> string list \<Rightarrow> string" where
  "py_join sep [] = []"
| "py_join sep [x] = x"
| "py_join sep (x # y # rest) = x @ sep @ py_join sep (y # rest)"

subsection \<open>The schema classes\<close>

text \<open>
  \<^verbatim>\<open>schema.py\<close> declares four subclasses of \<^verbatim>\<open>ColumnType\<close>; \<^verbatim>\<open>length\<close> is an
  integer or None. Python's classes are open, and \<^verbatim>\<open>to_spanner_type\<close> has a branch
  for an object of any other class: \<open>OtherColumnType\<close> stands for such an object and
  carries the text of its \<^verbatim>\<open>__class__\<close>.
\<close>

datatype column_type =
    BoolColumnType
  | BytesColumnType "int option"
  | Int64ColumnType
  | StringColumnType "int option"
  | OtherColumnType string

record column_schema =
  name :: string
  value_type :: column_type
  not_null :: bool

record table_schema =
  name :: string
  columns :: "column_schema list"
  keys :: "string list"

record index_schema =
  name :: string
  table :: string
  columns :: "string list"

datatype ddl_spec = Table table_schema | Index index_schema | OtherSpec

text \<open>The schema of the table \<^verbatim>\<open>EventLogs\<close>, as \<^verbatim>\<open>schema.py\<close> declares it.\<close>

definition EVENT_LOGS_TABLE :: table_schema where
  "EVENT_LOGS_TABLE =
     \<lparr>table_schema.name = ''EventLogs'',
      columns =
        [\<lparr>column_schema.name = ''rowid'', value_type = Int64ColumnType, not_null = False\<rparr>,
         \<lparr>column_schema.name = ''customer_number'', value_type = Int64ColumnType, not_null = False\<rparr>,
         \<lparr>column_schema.name = ''run_id'', value_type = Int64ColumnType, not_null = True\<rparr>,
         \<lparr>column_schema.name = ''event_log_id'', value_type = Int64ColumnType, not_null = False\<rparr>,
         \<lparr>column_schema.name = ''path'', value_type = StringColumnType (Some 1023), not_null = True\<rparr>,
         \<lparr>column_schema.name = ''offset'', value_type = Int64ColumnType, not_null = True\<rparr>],
      keys = [''rowid'', ''customer_number'', ''run_id'', ''event_log_id'']\<rparr>"

subsection \<open>DDL generation\<close>

text \<open>
  \<^verbatim>\<open>if column_type.length:\<close> tests truth: None and 0 both take the \<^verbatim>\<open>MAX\<close> branch.
\<close>

definition to_spanner_type :: "column_type \<Rightarrow> py_error + string" where
  "to_spanner_type column_type =
     (case column_type of
        BoolColumnType \<Rightarrow> Inr ''BOOL''
      | BytesColumnType len \<Rightarrow>
          (case len of
             Some n \<Rightarrow> (if n \<noteq> 0 then Inr (''BYTES('' @ py_str_int n @ '')'')
                        else Inr ''BYTES(MAX)'')
           | None \<Rightarrow> Inr ''BYTES(MAX)'')
      | Int64ColumnType \<Rightarrow> Inr ''INT64''
      | StringColumnType len \<Rightarrow>
          (case len of
             Some n \<Rightarrow> (if n \<noteq> 0 then Inr (''STRING('' @ py_str_int n @ '')'')
                        else Inr ''STRING(MAX)'')
           | None \<Rightarrow> Inr ''STRING(MAX)'')
      | OtherColumnType cls \<Rightarrow> Inl (ValueError (cls @ '' is not a support ColumnType'')))"

text \<open>
  The loop of \<^verbatim>\<open>to_spanner_ddl\<close> over \<^verbatim>\<open>spec.columns\<close>; it stops at the first column
  whose type \<^verbatim>\<open>to_spanner_type\<close> rejects.
\<close>

fun column_defs :: "column_schema list \<Rightarrow> py_error + string list" where
  "column_defs [] = Inr []"
| "column_defs (c # cs) =
     (case to_spanner_type (value_type c) of
        Inl e \<Rightarrow> Inl e
      | Inr ty \<Rightarrow>
          (case column_defs cs of
             Inl e \<Rightarrow> Inl e
           | Inr ss \<Rightarrow> Inr ((column_schema.name c @ '' '' @ ty) # ss)))"

text \<open>
  An argument that is neither a table nor an index leaves \<^verbatim>\<open>ddl\<close> unassigned, and
  \<^verbatim>\<open>return ddl\<close> raises UnboundLocalError.
\<close>

definition to_spanner_ddl :: "ddl_spec \<Rightarrow> py_error + string" where
  "to_spanner_ddl spec =
     (case spec of
        Table t \<Rightarrow>
          (case column_defs (table_schema.columns t) of
             Inl e \<Rightarrow> Inl e
           | Inr cols \<Rightarrow>
               Inr (''CREATE TABLE '' @ table_schema.name t @ '' ('' @ py_join '', '' cols
                    @ '') PRIMARY KEY ('' @ py_join '', '' (keys t) @ '')''))
      | Index i \<Rightarrow>
          Inr (''CREATE UNIQUE INDEX '' @ index_schema.name i @ '' ON '' @ table i @ '' (''
               @ py_join '', '' (index_schema.columns i) @ '')'')
      | OtherSpec \<Rightarrow> Inl UnboundLocalError)"

text \<open>
  The four declared column types, and the text of one column in a table's DDL.
\<close>

definition declared :: "column_type \<Rightarrow> bool" where
  "declared ty = (case ty of OtherColumnType cls \<Rightarrow> False | _ \<Rightarrow> True)"

definition column_def :: "column_schema \<Rightarrow> string" where
  "column_def c = column_schema.name c @ '' '' @ projr (to_spanner_type (value_type c))"

section \<open>The statement parser\<close>

subsection \<open>Parameter substitution\<close>

text \<open>
  A parameter is a string, an integer or a boolean. \<^verbatim>\<open>parse_sql\<close> wraps each string
  parameter in a pair of double quotes (\<^verbatim>\<open>'"{0}"'.format(p)\<close>) and leaves the others;
  \<^verbatim>\<open>str.format\<close> then writes a parameter as \<^verbatim>\<open>str\<close> does.
\<close>

datatype param = PStr string | PInt int | PBool bool

definition quote_param :: "param \<Rightarrow> param" where
  "quote_param p = (case p of PStr s \<Rightarrow> PStr ([CHR 0x22] @ s @ [CHR 0x22]) | _ \<Rightarrow> p)"

definition py_str :: "param \<Rightarrow> string" where
  "py_str p = (case p of PStr s \<Rightarrow> s | PInt i \<Rightarrow> py_str_int i
                 | PBool b \<Rightarrow> (if b then ''True'' else ''False''))"

text \<open>\<^verbatim>\<open>sql.replace("?", "{}")\<close>\<close>

fun replace_qmark :: "string \<Rightarrow> string" where
  "replace_qmark [] = []"
| "replace_qmark (c # cs) =
     (if c = CHR ''?'' then ''{}'' @ replace_qmark cs else c # replace_qmark cs)"

text \<open>
  \<^verbatim>\<open>sql.format(*parameters)\<close>, read from left to right: \<^verbatim>\<open>{{\<close> and \<^verbatim>\<open>}}\<close> are the
  escaped braces, \<^verbatim>\<open>{}\<close> takes the next positional argument (IndexError when there
  is none left; arguments left over are ignored), a single brace is a ValueError.
  Braces reach the format string from the \<^verbatim>\<open>?\<close> of the statement and from braces
  the statement itself has. A replacement field with anything between its braces
  (\<^verbatim>\<open>{0}\<close>, \<^verbatim>\<open>{name}\<close>, \<^verbatim>\<open>{!r}\<close>, \<^verbatim>\<open>{:>5}\<close>) is not modelled: the result is
  \<open>OutsideModel\<close> there.
\<close>

fun py_format :: "string \<Rightarrow> param list \<Rightarrow> py_error + string" where
  "py_format [] args = Inr []"
| "py_format [c] args =
     (if c = CHR ''{'' then Inl (ValueError ''Single '{' encountered in format string'')
      else if c = CHR ''}'' then Inl (ValueError ''Single '}' encountered in format string'')
      else Inr [c])"
| "py_format (c # d # rest) args =
     (if c = CHR ''{'' then
        (if d = CHR ''{'' then map_sum id ((#) c) (py_format rest args)
         else if d = CHR ''}'' then
           (case args of
              [] \<Rightarrow> Inl IndexError
            | a # as \<Rightarrow> map_sum id ((@) (py_str a)) (py_format rest as))
         else Inl (OutsideModel ''replacement field with a name, conversion or format spec''))
      else if c = CHR ''}'' then
        (if d = CHR ''}'' then map_sum id ((#) c) (py_format rest args)
         else Inl (ValueError ''Single '}' encountered in format string''))
      else map_sum id ((#) c) (py_format (d # rest) args))"

subsection \<open>Regular expressions, as \<^verbatim>\<open>re.match\<close> runs them\<close>

text \<open>
  Letters are compared without case under \<^verbatim>\<open>re.IGNORECASE\<close>; below code point 256
  only the ASCII letters have a counterpart in the other case that matters for the
  patterns here. \<^verbatim>\<open>\s\<close> and \<^verbatim>\<open>str.strip()\<close> use the white space of Python 3
  strings, which below 256 is the set of \<open>is_space\<close>.
\<close>

definition to_lower :: "char \<Rightarrow> char" where
  "to_lower c = (if CHR ''A'' \<le> c \<and> c \<le> CHR ''Z'' then char_of (of_char c + (32::nat)) else c)"

definition to_upper :: "char \<Rightarrow> char" where
  "to_upper c = (if CHR ''a'' \<le> c \<and> c \<le> CHR ''z'' then char_of (of_char c - (32::nat)) else c)"

definition is_space :: "char \<Rightarrow> bool" where
  "is_space c = (c \<in> set [CHR 0x09, CHR 0x0A, CHR 0x0B, CHR 0x0C, CHR 0x0D,
                           CHR 0x1C, CHR 0x1D, CHR 0x1E, CHR 0x1F, CHR 0x20,
                           CHR 0x85, CHR 0xA0])"

text \<open>
  The patterns of \<^verbatim>\<open>spanner.py\<close> are sequences of three kinds of item: one
  character (\<open>A\<close>), a greedy repetition \<^verbatim>\<open>x*\<close> of one character (\<open>Star\<close>), and such
  a repetition in a capturing group \<^verbatim>\<open>(x*)\<close> (\<open>Group\<close>). A character is a literal,
  \<^verbatim>\<open>.\<close> (anything but a newline), \<^verbatim>\<open>\s\<close>, or a set \<^verbatim>\<open>[...]\<close> of literals, ranges
  and \<^verbatim>\<open>\s\<close>. The flag \<open>ic\<close> is \<^verbatim>\<open>re.IGNORECASE\<close>.
\<close>

datatype set_item = One char | Rng char char | SpaceItem

datatype atom = Ch char | Dot | Space | Cls "set_item list"

datatype re_item = A atom | Star atom | Group atom

definition item_match :: "bool \<Rightarrow> set_item \<Rightarrow> char \<Rightarrow> bool" where
  "item_match ic it c =
     (case it of
        One l \<Rightarrow> (if ic then to_lower c = to_lower l else c = l)
      | Rng lo hi \<Rightarrow>
          (if ic then (lo \<le> to_lower c \<and> to_lower c \<le> hi) \<or> (lo \<le> to_upper c \<and> to_upper c \<le> hi)
           else lo \<le> c \<and> c \<le> hi)
      | SpaceItem \<Rightarrow> is_space c)"

definition atom_match :: "bool \<Rightarrow> atom \<Rightarrow> char \<Rightarrow> bool" where
  "atom_match ic a c =
     (case a of
        Ch l \<Rightarrow> (if ic then to_lower c = to_lower l else c = l)
      | Dot \<Rightarrow> c \<noteq> CHR 0x0A
      | Space \<Rightarrow> is_space c
      | Cls items \<Rightarrow> list_ex (\<lambda>it. item_match ic it c) items)"

text \<open>
  A greedy repetition takes as many characters as it can and gives them back one at
  a time while the rest of the pattern fails: \<open>backtrack f n\<close> tries \<open>f n\<close>,
  \<open>f (n - 1)\<close>, ... \<open>f 0\<close> and returns the first success.
\<close>

fun backtrack :: "(nat \<Rightarrow> 'a option) \<Rightarrow> nat \<Rightarrow> 'a option" where
  "backtrack f 0 = f 0"
| "backtrack f (Suc k) = (case f (Suc k) of Some r \<Rightarrow> Some r | None \<Rightarrow> backtrack f k)"

text \<open>
  \<^verbatim>\<open>pattern.match(s)\<close>: the pattern must match at the start of \<open>s\<close> and may stop
  before its end. The result is the text of the groups, in order, or \<open>None\<close>.
\<close>

fun re_match :: "bool \<Rightarrow> re_item list \<Rightarrow> string \<Rightarrow> string list \<Rightarrow> string list option" where
  "re_match ic [] s caps = Some caps"
| "re_match ic (A a # r) s caps =
     (case s of
        [] \<Rightarrow> None
      | c # cs \<Rightarrow> if atom_match ic a c then re_match ic r cs caps else None)"
| "re_match ic (Star a # r) s caps =
     backtrack (\<lambda>k. re_match ic r (drop k s) caps) (length (takeWhile (atom_match ic a) s))"
| "re_match ic (Group a # r) s caps =
     backtrack (\<lambda>k. re_match ic r (drop k s) (caps @ [take k s]))
       (length (takeWhile (atom_match ic a) s))"

text \<open>
  \<^verbatim>\<open>INSERT_PATTERN\<close>, \<^verbatim>\<open>SELECT_PATTERN\<close>, \<^verbatim>\<open>SelectSQL._PATTERN\<close> and
  \<^verbatim>\<open>SelectSQL._COL_NAME_PATTERN\<close>, item by item. The last one is compiled without
  \<^verbatim>\<open>re.IGNORECASE\<close>, and its set has the range \<^verbatim>\<open>A-z\<close>.
\<close>

definition lits :: "string \<Rightarrow> re_item list" where
  "lits s = map (\<lambda>c. A (Ch c)) s"

definition INSERT_PATTERN :: "re_item list" where
  "INSERT_PATTERN =
     [Star Space] @ lits ''insert'' @ [Star Space] @ lits ''into'' @ [Star Space]
     @ [Group (Cls [Rng CHR ''a'' CHR ''z'', Rng CHR ''0'' CHR ''9'', One CHR ''_''])]
     @ [Star Space, A (Ch CHR ''('')]
     @ [Group (Cls [Rng CHR ''a'' CHR ''z'', Rng CHR ''0'' CHR ''9'', One CHR '','',
                    One CHR ''_'', SpaceItem])]
     @ [A (Ch CHR '')''), Star Space] @ lits ''values'' @ [Star Space, A (Ch CHR ''(''),
        Group Dot, A (Ch CHR '')'')]"

definition SELECT_PATTERN :: "re_item list" where
  "SELECT_PATTERN = [Star Space] @ lits ''select'' @ [Star Dot]"

definition SelectSQL_PATTERN :: "re_item list" where
  "SelectSQL_PATTERN =
     [Star Space] @ lits ''select'' @ [Star Space]
     @ [Group (Cls [Rng CHR ''a'' CHR ''z'', Rng CHR ''0'' CHR ''9'', One CHR ''_'',
                    One CHR '','', SpaceItem])]
     @ lits ''from'' @ [Star Space]
     @ [Group (Cls [Rng CHR ''a'' CHR ''z'', Rng CHR ''0'' CHR ''9'', One CHR '','',
                    One CHR ''_'']), Star Dot]"

definition SelectSQL_COL_NAME_PATTERN :: "re_item list" where
  "SelectSQL_COL_NAME_PATTERN =
     [Star Space,
      Group (Cls [Rng CHR ''a'' CHR ''z'', Rng CHR ''A'' CHR ''z'', Rng CHR ''0'' CHR ''9'',
                  One CHR ''_'']),
      Star Space, Star Dot]"

text \<open>\<^verbatim>\<open>s.split(',')\<close> (never an empty list) and \<^verbatim>\<open>s.strip()\<close>\<close>

fun py_split :: "char \<Rightarrow> string \<Rightarrow> string list" where
  "py_split sep [] = [[]]"
| "py_split sep (c # cs) =
     (if c = sep then [] # py_split sep cs
      else (case py_split sep cs of
              [] \<Rightarrow> [[c]]
            | w # ws \<Rightarrow> (c # w) # ws))"

definition py_strip :: "string \<Rightarrow> string" where
  "py_strip s = rev (dropWhile is_space (rev (dropWhile is_space s)))"

subsection \<open>\<^verbatim>\<open>InsertSQL\<close>, \<^verbatim>\<open>SelectSQL\<close> and \<^verbatim>\<open>parse_sql\<close>\<close>

text \<open>
  \<open>InsertSQL table columns values\<close> and \<open>SelectSQL sql table columns\<close>.
\<close>

datatype parsed =
    InsertSQL string "string list" "string list"
  | SelectSQL string string "string list"

text \<open>
  \<^verbatim>\<open>SelectSQL.__init__\<close>: the loop over the tokens of the select list, and the
  constructor. \<^verbatim>\<open>m.group(k)\<close> raises IndexError for a group the pattern does not
  have.
\<close>

fun column_names :: "string list \<Rightarrow> py_error + string list" where
  "column_names [] = Inr []"
| "column_names (c # cs) =
     (case re_match False SelectSQL_COL_NAME_PATTERN c [] of
        None \<Rightarrow> Inl (ValueError (''Could not parse column name from: '' @ c))
      | Some [col] \<Rightarrow> map_sum id ((#) col) (column_names cs)
      | Some _ \<Rightarrow> Inl IndexError)"

definition SelectSQL_init :: "string \<Rightarrow> py_error + parsed" where
  "SelectSQL_init sql =
     (case re_match True SelectSQL_PATTERN sql [] of
        None \<Rightarrow> Inl (ValueError (''Could not parse columns and table name from query: '' @ sql))
      | Some [cols, tbl] \<Rightarrow> map_sum id (SelectSQL sql tbl) (column_names (py_split CHR '','' cols))
      | Some _ \<Rightarrow> Inl IndexError)"

text \<open>
  \<^verbatim>\<open>parse_sql\<close> returns an \<^verbatim>\<open>InsertSQL\<close>, a \<^verbatim>\<open>SelectSQL\<close>, or None when neither
  pattern matches the statement after substitution.
\<close>

definition parse_sql :: "string \<Rightarrow> param list \<Rightarrow> py_error + parsed option" where
  "parse_sql sql parameters =
     (case py_format (replace_qmark sql) (map quote_param parameters) of
        Inl e \<Rightarrow> Inl e
      | Inr sql' \<Rightarrow>
          (case re_match True INSERT_PATTERN sql' [] of
             Some [tbl, cols, vals] \<Rightarrow>
               Inr (Some (InsertSQL tbl (map py_strip (py_split CHR '','' cols))
                                        (map py_strip (py_split CHR '','' vals))))
           | Some _ \<Rightarrow> Inl IndexError
           | None \<Rightarrow>
               (case re_match True SELECT_PATTERN sql' [] of
                  Some _ \<Rightarrow> map_sum id Some (SelectSQL_init sql')
                | None \<Rightarrow> Inr None)))"

section \<open>Executing a statement\<close>

text \<open>
  The Spanner database is outside the program: \<open>batch_insert\<close> is the commit of
  \<^verbatim>\<open>batch.insert(table, columns, values)\<close> (\<open>None\<close> when it succeeds), \<open>execute_sql\<close>
  is \<^verbatim>\<open>session.create()\<close>, \<^verbatim>\<open>session.execute_sql(query)\<close> and
  \<^verbatim>\<open>results.consume_all()\<close> together, giving \<^verbatim>\<open>results.rows\<close>. \<open>execute\<close> returns the
  outcome, the cursor and the operations it sent to the database.
  \<^verbatim>\<open>self.instance.database(self.database_id)\<close> builds a local handle and sends
  nothing.
\<close>

datatype backend_op =
    BatchInsert string "string list" "string list list"
  | ExecuteSql string

record 'r backend =
  batch_insert :: "string \<Rightarrow> string list \<Rightarrow> string list list \<Rightarrow> py_error option"
  execute_sql :: "string \<Rightarrow> py_error + 'r list"

definition execute ::
  "'r backend \<Rightarrow> string \<Rightarrow> param list \<Rightarrow> 'r cursor
     \<Rightarrow> (py_error + unit) \<times> 'r cursor \<times> backend_op list" where
  "execute be sql parameters c =
     (let c1 = c\<lparr>database := Some (database_id c)\<rparr>
      in case parse_sql sql parameters of
           Inl e \<Rightarrow> (Inl e, c1, [])
         | Inr None \<Rightarrow>
             (Inl (ValueError (''SQL query '' @ sql @ '' is not supported for Cloud Spanner.'')),
              c1, [])
         | Inr (Some (InsertSQL tbl cols vals)) \<Rightarrow>
             (case batch_insert be tbl cols [vals] of
                Some e \<Rightarrow> (Inl e, c1, [BatchInsert tbl cols [vals]])
              | None \<Rightarrow> (Inr (), c1, [BatchInsert tbl cols [vals]]))
         | Inr (Some (SelectSQL query tbl cols)) \<Rightarrow>
             (case execute_sql be query of
                Inl e \<Rightarrow> (Inl e, c1, [ExecuteSql query])
              | Inr rows \<Rightarrow>
                  (Inr (), c1\<lparr>results := rows, rindex := 0, descriptions := cols\<rparr>,
                   [ExecuteSql query])))"

text \<open>A database for the examples: every insert succeeds, every query has two rows.\<close>

definition fake_backend :: "int backend" where
  "fake_backend = \<lparr>batch_insert = (\<lambda>tbl cols vals. None), execute_sql = (\<lambda>q. Inr [10, 20])\<rparr>"

section \<open>Properties of the fetch operations\<close>

lemma py_slice_nonneg:
  "0 \<le> i \<Longrightarrow> 0 \<le> j \<Longrightarrow> py_slice xs i j = take (nat j - nat i) (drop (nat i) xs)"
proof -
  assume i: "0 \<le> i" and j: "0 \<le> j"
  let ?n = "int (length xs)"
  show ?thesis
  proof (cases "i \<le> ?n")
    case True
    then show ?thesis using i j
      by (cases "j \<le> ?n") (auto simp: py_slice_def slice_bound_def Let_def min_def nat_diff_distrib')
  next
    case False
    then show ?thesis using i j
      by (auto simp: py_slice_def slice_bound_def Let_def min_def)
  qed
qed

lemma py_slice_past_end:
  "int (length xs) \<le> i \<Longrightarrow> py_slice xs i j = []"
  by (auto simp: py_slice_def slice_bound_def Let_def min_def max_def)



lemma fetchmany_sized:
  assumes "0 \<le> rindex c" and "0 \<le> n"
  shows "fetchmany (Some n) c
           = (take (nat n) (drop (nat (rindex c)) (results c)), c\<lparr>rindex := rindex c + n\<rparr>)"
proof -
  have "nat (rindex c + n) - nat (rindex c) = nat n"
    using assms by linarith
  then show ?thesis
    using assms by (simp add: fetchmany_def Let_def py_slice_nonneg)
qed

lemma fetchmany_unsized:
  assumes "0 \<le> rindex c"
  shows "fetchmany None c
           = (drop (nat (rindex c)) (results c), c\<lparr>rindex := int (length (results c))\<rparr>)"
  using assms by (simp add: fetchmany_def Let_def py_slice_nonneg)

lemma fetchall_rows:
  assumes "0 \<le> rindex c"
  shows "fetchall c
           = (drop (nat (rindex c)) (results c), c\<lparr>rindex := int (length (results c))\<rparr>)"
  using assms by (simp add: fetchall_def Let_def py_slice_nonneg)

text \<open>
  Claim C2, as the code has it. With a non-negative read position and a size
  \<open>n \<ge> 0\<close>, \<open>fetchmany n\<close> returns the rows from the read position on, at most \<open>n\<close>
  of them (all that remain when fewer than \<open>n\<close> do), and moves the read position
  forward by \<open>n\<close>, whatever the number of rows returned: past the end of the buffer
  when fewer than \<open>n\<close> rows remain.
\<close>

theorem fetchmany_advances_by_size:
  assumes "0 \<le> rindex c" and "0 \<le> n"
  shows "fetchmany (Some n) c
           = (take (nat n) (drop (nat (rindex c)) (results c)), c\<lparr>rindex := rindex c + n\<rparr>)
         \<and> int (length (fst (fetchmany (Some n) c)))
             = min n (max 0 (int (length (results c)) - rindex c))"
  using assms by (auto simp: fetchmany_sized min_def max_def)

theorem fetchmany_advances_by_size_witness:
  "fetchmany (Some 3) (cur [10, 20, 30, 40] 2) = ([30, 40], cur [10, 20, 30, 40] 5)
   \<and> int (length (fst (fetchmany (Some 3) (cur [10, 20, 30, 40] 2)))) = 2"
  using fetchmany_advances_by_size [of "cur [10, 20, 30, 40] 2" 3]
  by (simp add: cur_def)

text \<open>
  Claim C2 as stated fails: with one row left, \<open>fetchmany 3\<close> returns that row and
  moves the position by three, not by one.
\<close>

theorem fetchmany_position_counterexample:
  "fst (fetchmany (Some 3) (cur [10, 20] 1)) = [20]
   \<and> rindex (snd (fetchmany (Some 3) (cur [10, 20] 1))) = 4
   \<and> rindex (snd (fetchmany (Some 3) (cur [10, 20] 1)))
       \<noteq> rindex (cur [10, 20] 1) + int (length (fst (fetchmany (Some 3) (cur [10, 20] 1))))"
  by (simp add: cur_def fetchmany_def py_slice_def slice_bound_def Let_def)

lemma do_fetch_results: "results (snd (do_fetch call c)) = results c"
  by (cases call)
     (auto simp: do_fetch_def fetchone_def fetchmany_def fetchall_def Let_def
           split: sum.splits prod.splits if_splits)

lemma run_fetches_step:
  "fst (run_fetches (call # calls) c)
     = fst (do_fetch call c) # fst (run_fetches calls (snd (do_fetch call c)))"
  "snd (run_fetches (call # calls) c) = snd (run_fetches calls (snd (do_fetch call c)))"
  by (simp_all add: case_prod_unfold)

lemma run_fetches_results: "results (snd (run_fetches calls c)) = results c"
  by (induction calls arbitrary: c) (simp_all add: run_fetches_step do_fetch_results del: run_fetches.simps(2))

lemma consume_running:
  "consume c (GenRunning rows i) = (drop i rows, GenFinished)"
proof (induction "length rows - i" arbitrary: i)
  case 0
  then show ?case
    by (subst consume.simps) (simp add: list_iter_next_def)
next
  case (Suc k)
  then have lt: "i < length rows" by simp
  from Suc have "consume c (GenRunning rows (Suc i)) = (drop (Suc i) rows, GenFinished)"
    by simp
  then show ?case using lt
    by (subst consume.simps) (simp add: list_iter_next_def Cons_nth_drop_Suc)
qed

lemma consume_created: "consume c (cursor_iter c) = (results c, GenFinished)"
proof (cases "results c")
  case Nil
  then show ?thesis
    by (subst consume.simps) (simp add: cursor_iter_def list_iter_next_def)
next
  case (Cons r rs)
  then show ?thesis
    by (subst consume.simps) (simp add: cursor_iter_def list_iter_next_def consume_running)
qed


lemma do_fetch_nonneg:
  assumes "0 \<le> rindex c" and "nonneg_size call"
  shows "\<not> isl (fst (do_fetch call c))" and "0 \<le> rindex (snd (do_fetch call c))"
  using assms
  by (cases call; auto simp: do_fetch_def nonneg_size_def fetchone_def fetchmany_def fetchall_def
        py_getitem_def Let_def split: option.splits)+

lemma do_fetch_past_end:
  assumes "int (length (results c)) \<le> rindex c" and "nonneg_size call"
  shows "is_empty_reply (fst (do_fetch call c))"
    and "int (length (results (snd (do_fetch call c)))) \<le> rindex (snd (do_fetch call c))"
  using assms
  by (cases call; auto simp: do_fetch_def nonneg_size_def is_empty_reply_def fetchone_def
        fetchmany_def fetchall_def py_slice_past_end Let_def split: option.splits)+

lemma do_fetch_advancing:
  assumes "advancing call"
  shows "rindex c \<le> rindex (snd (do_fetch call c))"
  using assms
  by (cases call; auto simp: do_fetch_def advancing_def fetchone_def fetchmany_def
        Let_def split: option.splits sum.splits)

lemma do_fetch_to_end:
  "rindex (snd (do_fetch FetchAll c)) = int (length (results c))"
  "rindex (snd (do_fetch (FetchMany None) c)) = int (length (results c))"
  by (simp_all add: do_fetch_def fetchall_def fetchmany_def Let_def)

lemma positions_hd: "hd (positions calls c) = rindex c"
  by (cases calls) simp_all

lemma positions_sorted:
  "list_all advancing calls \<Longrightarrow> sorted (positions calls c)"
proof (induction calls arbitrary: c)
  case Nil
  then show ?case by simp
next
  case (Cons call calls)
  let ?c' = "snd (do_fetch call c)"
  have s: "sorted (positions calls ?c')" using Cons by simp
  have le: "rindex c \<le> rindex ?c'" using Cons.prems by (simp add: do_fetch_advancing)
  have "\<forall>x \<in> set (positions calls ?c'). rindex ?c' \<le> x"
    using s positions_hd[of calls ?c'] by (cases "positions calls ?c'") auto
  then show ?case using s le by fastforce
qed

lemma run_fetches_no_error:
  "0 \<le> rindex c \<Longrightarrow> list_all nonneg_size calls \<Longrightarrow>
     list_all (\<lambda>r. \<not> isl r) (fst (run_fetches calls c)) \<and> 0 \<le> rindex (snd (run_fetches calls c))"
  by (induction calls arbitrary: c) (simp_all add: run_fetches_step do_fetch_nonneg del: run_fetches.simps(2))

lemma run_fetches_past_end:
  "int (length (results c)) \<le> rindex c \<Longrightarrow> list_all nonneg_size calls \<Longrightarrow>
     list_all is_empty_reply (fst (run_fetches calls c))"
proof (induction calls arbitrary: c)
  case Nil
  then show ?case by simp
next
  case (Cons call calls)
  let ?c' = "snd (do_fetch call c)"
  from Cons.prems have sz: "nonneg_size call" and rest: "list_all nonneg_size calls"
    by simp_all
  have "is_empty_reply (fst (do_fetch call c))"
    using Cons.prems(1) sz by (rule do_fetch_past_end(1))
  moreover have "int (length (results ?c')) \<le> rindex ?c'"
    using Cons.prems(1) sz by (rule do_fetch_past_end(2))
  then have "list_all is_empty_reply (fst (run_fetches calls ?c'))"
    using rest by (rule Cons.IH)
  ultimately show ?case
    by (simp add: run_fetches_step del: run_fetches.simps(2))
qed

text \<open>
  A negative size moves the read position below zero, and \<open>fetchone\<close> then reads
  from the end of the buffer or raises: the reason for the sizes \<open>n \<ge> 0\<close> below.
\<close>

lemma fetchone_after_negative_size:
  "run_fetches [FetchMany (Some (- 2)), FetchOne] (cur [] 0)
     = ([Inr (Rows []), Inl IndexError], cur [] (- 1))"
  by code_simp

text \<open>
  Claim C10, as the code has it. From a non-negative read position, and with sizes
  \<open>n \<ge> 0\<close>, no call of a sequence of \<open>fetchone\<close>, \<open>fetchmany\<close> and \<open>fetchall\<close>
  raises and the position stays non-negative; a sequence of \<open>fetchone\<close> and
  \<open>fetchmany n\<close> never lowers the position; \<open>fetchall\<close> and \<open>fetchmany\<close> without a
  size set it to the length of the buffer; and once the position is at or beyond that
  length every call returns no row or an empty sequence.
\<close>

theorem fetch_sequences:
  assumes "0 \<le> rindex c" and "list_all nonneg_size calls"
  shows "list_all (\<lambda>r. \<not> isl r) (fst (run_fetches calls c))
       \<and> 0 \<le> rindex (snd (run_fetches calls c))
       \<and> (list_all advancing calls \<longrightarrow> sorted (positions calls c))
       \<and> rindex (snd (do_fetch FetchAll c)) = int (length (results c))
       \<and> rindex (snd (do_fetch (FetchMany None) c)) = int (length (results c))
       \<and> (int (length (results c)) \<le> rindex c \<longrightarrow>
            list_all is_empty_reply (fst (run_fetches calls c)))"
  using assms
  by (simp add: run_fetches_no_error positions_sorted do_fetch_to_end run_fetches_past_end)

theorem fetch_sequences_witness:
  "list_all (\<lambda>r. \<not> isl r)
      (fst (run_fetches [FetchMany (Some 5), FetchOne, FetchMany (Some 0)] (cur [10, 20] 3)))
   \<and> 0 \<le> rindex (snd (run_fetches [FetchMany (Some 5), FetchOne, FetchMany (Some 0)] (cur [10, 20] 3)))
   \<and> sorted (positions [FetchMany (Some 5), FetchOne, FetchMany (Some 0)] (cur [10, 20] 3))
   \<and> list_all is_empty_reply
      (fst (run_fetches [FetchMany (Some 5), FetchOne, FetchMany (Some 0)] (cur [10, 20] 3)))"
proof -
  have a: "0 \<le> rindex (cur [10, 20] 3)"
    and b: "int (length (results (cur [10, 20] 3))) \<le> rindex (cur [10, 20] 3)"
    by (simp_all add: cur_def)
  have c: "list_all nonneg_size [FetchMany (Some 5), FetchOne, FetchMany (Some 0)]"
    and d: "list_all advancing [FetchMany (Some 5), FetchOne, FetchMany (Some 0)]"
    by (simp_all add: nonneg_size_def advancing_def)
  show ?thesis
    using fetch_sequences [OF a c] b d by blast
qed

text \<open>
  Claim C10 as stated fails: \<open>fetchmany 5\<close> on two rows moves the position to five,
  and \<open>fetchall\<close> then sets it back to two.
\<close>

theorem position_decreases_counterexample:
  "positions [FetchMany (Some 5), FetchAll] (cur [10, 20] 0) = [0, 5, 2]
   \<and> \<not> sorted (positions [FetchMany (Some 5), FetchAll] (cur [10, 20] 0))"
  by (simp add: cur_def do_fetch_def fetchmany_def fetchall_def Let_def)

text \<open>
  Claim C9. Iterating a cursor yields the rows of its buffer, all of them and in
  order from the first, whatever fetch calls came before and wherever they left the
  read position; the loop ends, and the generator it used is then exhausted: every
  further \<open>next\<close> on it stops at once, for any cursor state.
\<close>

theorem iteration_from_start:
  "consume (snd (run_fetches calls c)) (cursor_iter (snd (run_fetches calls c)))
     = (results c, GenFinished)
   \<and> gen_next c' GenFinished = (None, GenFinished)"
  by (simp add: consume_created run_fetches_results)


section \<open>Properties of the DDL generator\<close>

text \<open>
  Claim C6. \<open>to_spanner_type\<close> answers each of the four declared column types:
  \<open>BOOL\<close>, \<open>INT64\<close>, \<open>BYTES(n)\<close> and \<open>STRING(n)\<close> for a length \<open>n\<close> (a length is
  a positive integer; the code takes any integer but 0), \<open>BYTES(MAX)\<close> and
  \<open>STRING(MAX)\<close> without a length. For an object of any other class it raises
  ValueError, and it raises for no declared type.
\<close>

theorem to_spanner_type_cases:
  "to_spanner_type BoolColumnType = Inr ''BOOL''
   \<and> (n \<noteq> 0 \<longrightarrow> to_spanner_type (BytesColumnType (Some n)) = Inr (''BYTES('' @ py_str_int n @ '')''))
   \<and> to_spanner_type (BytesColumnType None) = Inr ''BYTES(MAX)''
   \<and> to_spanner_type Int64ColumnType = Inr ''INT64''
   \<and> (n \<noteq> 0 \<longrightarrow> to_spanner_type (StringColumnType (Some n)) = Inr (''STRING('' @ py_str_int n @ '')''))
   \<and> to_spanner_type (StringColumnType None) = Inr ''STRING(MAX)''
   \<and> to_spanner_type (OtherColumnType cls) = Inl (ValueError (cls @ '' is not a support ColumnType''))
   \<and> (declared ty \<longleftrightarrow> \<not> isl (to_spanner_type ty))"
  by (cases ty) (simp_all add: to_spanner_type_def declared_def split: option.splits)

lemma py_str_int_1023: "py_str_int 1023 = ''1023''"
  by code_simp

theorem to_spanner_type_cases_witness:
  "to_spanner_type (BytesColumnType (Some 1023)) = Inr ''BYTES(1023)''
   \<and> to_spanner_type (StringColumnType (Some 1023)) = Inr ''STRING(1023)''
   \<and> to_spanner_type (OtherColumnType ''Float'') = Inl (ValueError ''Float is not a support ColumnType'')
   \<and> declared Int64ColumnType \<and> \<not> isl (to_spanner_type Int64ColumnType)"
  using to_spanner_type_cases [where n = 1023 and cls = "''Float''" and ty = Int64ColumnType]
  by (simp add: py_str_int_1023 declared_def)

lemma declared_type: "declared ty \<Longrightarrow> \<exists>s. to_spanner_type ty = Inr s"
  by (cases ty) (simp_all add: to_spanner_type_def declared_def split: option.splits)

lemma column_defs_declared:
  "list_all (\<lambda>c. declared (value_type c)) cs \<Longrightarrow> column_defs cs = Inr (map column_def cs)"
proof (induction cs)
  case Nil
  then show ?case by simp
next
  case (Cons c cs)
  then have "declared (value_type c)" by simp
  then obtain s where s: "to_spanner_type (value_type c) = Inr s"
    using declared_type by blast
  have "column_defs cs = Inr (map column_def cs)" using Cons by simp
  with s show ?case
    by (simp add: column_def_def)
qed

text \<open>
  Claim C7. For a table whose columns have declared types, \<open>to_spanner_ddl\<close> returns
  \<open>CREATE TABLE name (col type, ...) PRIMARY KEY (keys)\<close>: one entry for each column,
  in the order of declaration, made of the column's name, a space and its Spanner
  type, the entries and the key columns each joined by a comma and a space, the keys
  in their declared order.
\<close>

theorem table_ddl:
  assumes "list_all (\<lambda>c. declared (value_type c)) (table_schema.columns t)"
  shows "to_spanner_ddl (Table t)
           = Inr (''CREATE TABLE '' @ table_schema.name t @ '' (''
                  @ py_join '', '' (map column_def (table_schema.columns t))
                  @ '') PRIMARY KEY ('' @ py_join '', '' (keys t) @ '')'')"
proof -
  have "column_defs (table_schema.columns t) = Inr (map column_def (table_schema.columns t))"
    using assms by (rule column_defs_declared)
  then show ?thesis
    by (simp add: to_spanner_ddl_def)
qed

theorem table_ddl_witness:
  "to_spanner_ddl (Table EVENT_LOGS_TABLE)
     = Inr ''CREATE TABLE EventLogs (rowid INT64, customer_number INT64, run_id INT64, event_log_id INT64, path STRING(1023), offset INT64) PRIMARY KEY (rowid, customer_number, run_id, event_log_id)''"
proof -
  have d: "list_all (\<lambda>c. declared (value_type c)) (table_schema.columns EVENT_LOGS_TABLE)"
    by (simp add: EVENT_LOGS_TABLE_def declared_def)
  show ?thesis
    using table_ddl [OF d]
    by (simp add: EVENT_LOGS_TABLE_def column_def_def to_spanner_type_def py_str_int_1023)
qed

section \<open>Properties of the parser and of \<open>execute\<close>\<close>

text \<open>
  Claim C4. The INSERT statement for \<open>EventLogs\<close> with the parameters
  \<open>(1, 2, 3, 4, "p", 5)\<close> parses to an \<open>InsertSQL\<close> with the table \<open>EventLogs\<close>, the
  six column names in the order written, and the values \<open>1\<close>, \<open>2\<close>, \<open>3\<close>, \<open>4\<close>,
  \<open>"p"\<close> (the string parameter between double quotes, character \<open>0x22\<close>) and \<open>5\<close>.
\<close>

theorem parse_insert_event_logs:
  "parse_sql
     ''INSERT INTO EventLogs (rowid, customer_number, run_id, event_log_id, path, offset) VALUES (?, ?, ?, ?, ?, ?)''
     [PInt 1, PInt 2, PInt 3, PInt 4, PStr ''p'', PInt 5]
   = Inr (Some (InsertSQL ''EventLogs''
                  [''rowid'', ''customer_number'', ''run_id'', ''event_log_id'', ''path'', ''offset'']
                  [''1'', ''2'', ''3'', ''4'', [CHR 0x22, CHR ''p'', CHR 0x22], ''5'']))"
  by code_simp

text \<open>
  Claim C5. The SELECT statement on \<open>EventLogs\<close> with the parameters \<open>(297, 0)\<close>
  parses to a \<open>SelectSQL\<close> with the table \<open>EventLogs\<close>, the columns \<open>rowid\<close> and
  \<open>customer_number\<close> in that order and without the white space around them, and as
  query the statement with \<open>297\<close> in place of the first \<open>?\<close> and \<open>0\<close> in place of
  the second.
\<close>

theorem parse_select_event_logs:
  "parse_sql
     ''SELECT rowid, customer_number FROM EventLogs WHERE rowid = ? AND event_log_id = ?''
     [PInt 297, PInt 0]
   = Inr (Some (SelectSQL
                  ''SELECT rowid, customer_number FROM EventLogs WHERE rowid = 297 AND event_log_id = 0''
                  ''EventLogs'' [''rowid'', ''customer_number'']))"
  by code_simp

lemma parse_sql_neither:
  assumes "py_format (replace_qmark sql) (map quote_param parameters) = Inr text"
      and "re_match True INSERT_PATTERN text [] = None"
      and "re_match True SELECT_PATTERN text [] = None"
  shows "parse_sql sql parameters = Inr None"
  using assms by (simp add: parse_sql_def)

text \<open>
  Claim C3. When the statement, after the substitution of its parameters, matches
  neither \<open>INSERT_PATTERN\<close> nor \<open>SELECT_PATTERN\<close>, \<open>execute\<close> raises a ValueError whose
  message has the text of the statement as it was passed, sends nothing to the
  database, and leaves the buffered rows and the read position as they were.
\<close>

theorem execute_unsupported:
  assumes "py_format (replace_qmark sql) (map quote_param parameters) = Inr text"
      and "re_match True INSERT_PATTERN text [] = None"
      and "re_match True SELECT_PATTERN text [] = None"
  shows "fst (execute be sql parameters c)
           = Inl (ValueError (''SQL query '' @ sql @ '' is not supported for Cloud Spanner.''))
         \<and> snd (snd (execute be sql parameters c)) = []
         \<and> results (fst (snd (execute be sql parameters c))) = results c
         \<and> rindex (fst (snd (execute be sql parameters c))) = rindex c"
  using parse_sql_neither [OF assms] by (simp add: execute_def)

lemma update_substituted:
  "py_format (replace_qmark ''UPDATE EventLogs SET offset = ? WHERE rowid = ?'')
     (map quote_param [PInt 5, PInt 297])
   = Inr ''UPDATE EventLogs SET offset = 5 WHERE rowid = 297''"
  by code_simp

lemma update_no_match:
  "re_match True INSERT_PATTERN ''UPDATE EventLogs SET offset = 5 WHERE rowid = 297'' [] = None"
  "re_match True SELECT_PATTERN ''UPDATE EventLogs SET offset = 5 WHERE rowid = 297'' [] = None"
  by code_simp+

theorem execute_unsupported_witness:
  "fst (execute fake_backend ''UPDATE EventLogs SET offset = ? WHERE rowid = ?''
          [PInt 5, PInt 297] (cur [10, 20] 1))
     = Inl (ValueError
         ''SQL query UPDATE EventLogs SET offset = ? WHERE rowid = ? is not supported for Cloud Spanner.'')
   \<and> snd (snd (execute fake_backend ''UPDATE EventLogs SET offset = ? WHERE rowid = ?''
          [PInt 5, PInt 297] (cur [10, 20] 1))) = []
   \<and> results (fst (snd (execute fake_backend ''UPDATE EventLogs SET offset = ? WHERE rowid = ?''
          [PInt 5, PInt 297] (cur [10, 20] 1)))) = [10, 20]
   \<and> rindex (fst (snd (execute fake_backend ''UPDATE EventLogs SET offset = ? WHERE rowid = ?''
          [PInt 5, PInt 297] (cur [10, 20] 1)))) = 1"
  using execute_unsupported [OF update_substituted update_no_match, of fake_backend "cur [10, 20] 1"]
  by (simp add: cur_def)

text \<open>
  Claim C1, as the code has it. When \<open>execute\<close> of a statement that parses as an
  INSERT succeeds, it has sent one batch insert of one row and the cursor keeps the
  buffered rows, the read position and the descriptions it had before the call, so
  every fetch returns what it would have returned without the INSERT. Where the read
  position was at or past the end of the buffer (as on a new cursor), \<open>fetchone\<close>
  returns no row and \<open>fetchmany\<close> and \<open>fetchall\<close> return an empty sequence. Where
  the read position lies inside the buffer, the rows of the last SELECT are still
  readable: \<open>fetchone\<close> returns the row at the read position and \<open>fetchall\<close> the
  rows from there on, which are not empty.
\<close>

theorem execute_insert_keeps_results:
  assumes "parse_sql sql parameters = Inr (Some (InsertSQL tbl cols vals))"
      and "batch_insert be tbl cols [vals] = None"
  shows "execute be sql parameters c
           = (Inr (), c\<lparr>database := Some (database_id c)\<rparr>, [BatchInsert tbl cols [vals]])
         \<and> results (fst (snd (execute be sql parameters c))) = results c
         \<and> rindex (fst (snd (execute be sql parameters c))) = rindex c
         \<and> descriptions (fst (snd (execute be sql parameters c))) = descriptions c
         \<and> fst (fetchone (fst (snd (execute be sql parameters c)))) = fst (fetchone c)
         \<and> fst (fetchmany sz (fst (snd (execute be sql parameters c)))) = fst (fetchmany sz c)
         \<and> fst (fetchall (fst (snd (execute be sql parameters c)))) = fst (fetchall c)
         \<and> (int (length (results c)) \<le> rindex c \<longrightarrow>
              fst (fetchone (fst (snd (execute be sql parameters c)))) = Inr None
              \<and> fst (fetchmany sz (fst (snd (execute be sql parameters c)))) = []
              \<and> fst (fetchall (fst (snd (execute be sql parameters c)))) = [])
         \<and> (0 \<le> rindex c \<and> rindex c < int (length (results c)) \<longrightarrow>
              fst (fetchone (fst (snd (execute be sql parameters c))))
                = Inr (Some (results c ! nat (rindex c)))
              \<and> fst (fetchall (fst (snd (execute be sql parameters c))))
                = drop (nat (rindex c)) (results c)
              \<and> fst (fetchall (fst (snd (execute be sql parameters c)))) \<noteq> [])"
proof -
  let ?c' = "c\<lparr>database := Some (database_id c)\<rparr>"
  have e: "execute be sql parameters c = (Inr (), ?c', [BatchInsert tbl cols [vals]])"
    using assms by (simp add: execute_def)
  have same: "fst (fetchone ?c') = fst (fetchone c)"
             "fst (fetchmany sz ?c') = fst (fetchmany sz c)"
             "fst (fetchall ?c') = fst (fetchall c)"
    by (auto simp: fetchone_def fetchmany_def fetchall_def Let_def split: sum.splits option.splits)
  have past: "fst (fetchone c) = Inr None \<and> fst (fetchmany sz c) = [] \<and> fst (fetchall c) = []"
    if "int (length (results c)) \<le> rindex c"
    using that by (simp add: fetchone_def fetchmany_def fetchall_def py_slice_past_end Let_def)
  have inside: "fst (fetchone c) = Inr (Some (results c ! nat (rindex c)))
                \<and> fst (fetchall c) = drop (nat (rindex c)) (results c)
                \<and> fst (fetchall c) \<noteq> []"
    if "0 \<le> rindex c \<and> rindex c < int (length (results c))"
  proof -
    from that have "nat (rindex c) < length (results c)" by linarith
    with that show ?thesis
      by (simp add: fetchone_def py_getitem_def fetchall_def py_slice_nonneg Let_def)
  qed
  show ?thesis
    unfolding e using same past inside by (simp; arith)
qed

lemma parse_insert_short:
  "parse_sql ''INSERT INTO T (a) VALUES (?)'' [PInt 1] = Inr (Some (InsertSQL ''T'' [''a''] [''1'']))"
  by code_simp

theorem execute_insert_keeps_results_witness:
  "execute fake_backend ''INSERT INTO T (a) VALUES (?)'' [PInt 1] (cur [10, 20, 30] 1)
     = (Inr (), (cur [10, 20, 30] 1)\<lparr>database := Some ''d''\<rparr>,
        [BatchInsert ''T'' [''a''] [[''1'']]])
   \<and> results (fst (snd (execute fake_backend ''INSERT INTO T (a) VALUES (?)'' [PInt 1]
                           (cur [10, 20, 30] 1)))) = [10, 20, 30]
   \<and> rindex (fst (snd (execute fake_backend ''INSERT INTO T (a) VALUES (?)'' [PInt 1]
                          (cur [10, 20, 30] 1)))) = 1
   \<and> fst (fetchone (fst (snd (execute fake_backend ''INSERT INTO T (a) VALUES (?)'' [PInt 1]
                                  (cur [10, 20, 30] 1))))) = Inr (Some 20)
   \<and> fst (fetchall (fst (snd (execute fake_backend ''INSERT INTO T (a) VALUES (?)'' [PInt 1]
                                  (cur [10, 20, 30] 1))))) = [20, 30]
   \<and> fst (fetchone (fst (snd (execute fake_backend ''INSERT INTO T (a) VALUES (?)'' [PInt 1]
                                  (cur [10, 20, 30] 3))))) = Inr None
   \<and> fst (fetchmany (Some 2) (fst (snd (execute fake_backend ''INSERT INTO T (a) VALUES (?)''
                                  [PInt 1] (cur [10, 20, 30] 3))))) = []
   \<and> fst (fetchall (fst (snd (execute fake_backend ''INSERT INTO T (a) VALUES (?)'' [PInt 1]
                                  (cur [10, 20, 30] 3))))) = []"
proof -
  let ?run = "\<lambda>c. fst (snd (execute fake_backend ''INSERT INTO T (a) VALUES (?)'' [PInt 1] c))"
  have ok: "batch_insert fake_backend ''T'' [''a''] [[''1'']] = None"
    by (simp add: fake_backend_def)
  have inside: "0 \<le> rindex (cur [10, 20, 30] 1)
                  \<and> rindex (cur [10, 20, 30] 1) < int (length (results (cur [10, 20, 30] 1)))"
    and at_end: "int (length (results (cur [10, 20, 30] 3))) \<le> rindex (cur [10, 20, 30] 3)"
    by (simp_all add: cur_def)
  note kept = execute_insert_keeps_results
                [OF parse_insert_short ok, of "cur [10, 20, 30] 1" "Some 2"]
  note ended = execute_insert_keeps_results
                [OF parse_insert_short ok, of "cur [10, 20, 30] 3" "Some 2"]
  from kept have e: "execute fake_backend ''INSERT INTO T (a) VALUES (?)'' [PInt 1]
                       (cur [10, 20, 30] 1)
                     = (Inr (), (cur [10, 20, 30] 1)\<lparr>database := Some (database_id (cur [10, 20, 30] 1))\<rparr>,
                        [BatchInsert ''T'' [''a''] [[''1'']]])"
    by blast
  from kept have r: "results (?run (cur [10, 20, 30] 1)) = results (cur [10, 20, 30] 1)"
    and p: "rindex (?run (cur [10, 20, 30] 1)) = rindex (cur [10, 20, 30] 1)"
    by blast+
  from kept inside
  have f1: "fst (fetchone (?run (cur [10, 20, 30] 1)))
              = Inr (Some (results (cur [10, 20, 30] 1) ! nat (rindex (cur [10, 20, 30] 1))))"
    and fa: "fst (fetchall (?run (cur [10, 20, 30] 1)))
              = drop (nat (rindex (cur [10, 20, 30] 1))) (results (cur [10, 20, 30] 1))"
    by blast+
  from ended at_end
  have n1: "fst (fetchone (?run (cur [10, 20, 30] 3))) = Inr None"
    and nm: "fst (fetchmany (Some 2) (?run (cur [10, 20, 30] 3))) = []"
    and na: "fst (fetchall (?run (cur [10, 20, 30] 3))) = []"
    by blast+
  have g1: "execute fake_backend ''INSERT INTO T (a) VALUES (?)'' [PInt 1] (cur [10, 20, 30] 1)
              = (Inr (), (cur [10, 20, 30] 1)\<lparr>database := Some ''d''\<rparr>,
                 [BatchInsert ''T'' [''a''] [[''1'']]])"
    using e by (simp add: cur_def)
  have g2: "results (?run (cur [10, 20, 30] 1)) = [10, 20, 30]"
    using r by (simp add: cur_def)
  have g3: "rindex (?run (cur [10, 20, 30] 1)) = 1"
    using p by (simp add: cur_def)
  have g4: "fst (fetchone (?run (cur [10, 20, 30] 1))) = Inr (Some 20)"
    using f1 by (simp add: cur_def)
  have g5: "fst (fetchall (?run (cur [10, 20, 30] 1))) = [20, 30]"
    using fa by (simp add: cur_def)
  from g1 g2 g3 g4 g5 n1 nm na show ?thesis
    by blast
qed

text \<open>
  Claim C1 as stated fails: after a SELECT has buffered two rows, an INSERT on the
  same cursor succeeds and the rows are still there for \<open>fetchone\<close> and \<open>fetchall\<close>.
\<close>

theorem insert_after_select_counterexample:
  "fst (execute fake_backend ''INSERT INTO T (a) VALUES (?)'' [PInt 1] (cur [10, 20] 0)) = Inr ()
   \<and> fst (fetchone (fst (snd (execute fake_backend ''INSERT INTO T (a) VALUES (?)'' [PInt 1]
                                  (cur [10, 20] 0))))) = Inr (Some 10)
   \<and> fst (fetchall (fst (snd (execute fake_backend ''INSERT INTO T (a) VALUES (?)'' [PInt 1]
                                  (cur [10, 20] 0))))) = [10, 20]"
  by (simp add: execute_def parse_insert_short fake_backend_def cur_def fetchone_def fetchall_def
        py_getitem_def py_slice_def slice_bound_def Let_def)

end
